theory Spec2Isabelle
  imports Main
begin

section \<open>The authenticated request core of the CapRover deployment API\<close>

text \<open>
  The first variant of \<^verbatim>\<open>src/index.js\<close> keeps one module-level variable
  \<^verbatim>\<open>sessionToken\<close> and three functions around it: \<^verbatim>\<open>getAuthHeaders\<close>,
  \<^verbatim>\<open>makeCaproverRequest\<close> and \<^verbatim>\<open>authenticate\<close>. They are embedded here as
  functions on an explicit world: the variable, the state of the upstream server and the
  trace of what was sent. A rejected promise or a \<^verbatim>\<open>throw\<close> is the \<open>Inl\<close> of a sum.
\<close>

subsection \<open>JavaScript values\<close>

text \<open>
  What \<^verbatim>\<open>response.data\<close> and \<^verbatim>\<open>sessionToken\<close> can hold: the values of parsed JSON,
  and \<^verbatim>\<open>undefined\<close> for a property that is not there. An object is the list of its own
  properties, each key once. A number is held as the string that JavaScript prints for it
  (\<^verbatim>\<open>0\<close>, \<^verbatim>\<open>-5\<close>, \<^verbatim>\<open>1.5\<close>, \<^verbatim>\<open>1e+21\<close>), which tells the numbers apart up to the
  sign of zero.
\<close>

datatype jsval =
    JUndefined
  | JNull
  | JBool bool
  | JNum string
  | JStr string
  | JArr "jsval list"
  | JObj "(string \<times> jsval) list"

text \<open>
  The test that \<^verbatim>\<open>!v\<close>, \<^verbatim>\<open>v && w\<close> and \<^verbatim>\<open>if (v)\<close> make. The falsy numbers are
  the two zeros, which both print as \<^verbatim>\<open>0\<close>, and \<^verbatim>\<open>NaN\<close>.
\<close>

fun truthy :: "jsval \<Rightarrow> bool" where
  "truthy JUndefined = False"
| "truthy JNull = False"
| "truthy (JBool b) = b"
| "truthy (JNum n) = (n \<noteq> ''0'' \<and> n \<noteq> ''NaN'')"
| "truthy (JStr s) = (s \<noteq> [])"
| "truthy (JArr xs) = True"
| "truthy (JObj kvs) = True"

text \<open>
  \<^verbatim>\<open>v.data\<close> and \<^verbatim>\<open>v.token\<close> on a truthy value: the property of an object, and
  \<^verbatim>\<open>undefined\<close> on anything else, since no string, number, boolean or array has a
  property of either name.
\<close>

fun property :: "jsval \<Rightarrow> string \<Rightarrow> jsval" where
  "property (JObj kvs) k = (case map_of kvs k of None \<Rightarrow> JUndefined | Some v \<Rightarrow> v)"
| "property v k = JUndefined"

subsection \<open>Requests, responses and errors\<close>

record request =
  req_method :: string
  req_url :: string
  req_headers :: "(string \<times> string) list"
  req_data :: jsval

text \<open>
  What the network gives back for one request: a response with its status and its parsed
  body, or nothing at all (connection refused, timeout, name not resolved).
\<close>

datatype outcome = Response nat jsval | NoResponse

text \<open>
  The values that are thrown. \<open>AxiosError r\<close> is the rejection of an axios call, with
  \<^verbatim>\<open>error.response\<close> when a response came. The others have no \<^verbatim>\<open>response\<close>
  property: \<open>TypeError\<close> is what the runtime throws when a value cannot be converted to
  a string, and the rest are the three \<^verbatim>\<open>new Error(...)\<close> of the source:
  \<open>NoSessionToken\<close> is \<^verbatim>\<open>'No session token available. Please authenticate first.'\<close>,
  \<open>RequestFailed s d\<close> is
  \<^verbatim>\<open>`Request failed with status ${s}: ${JSON.stringify(d)}`\<close> and
  \<open>NoValidToken\<close> is \<^verbatim>\<open>'No valid token received from authentication'\<close>.
\<close>

datatype error =
    AxiosError "(nat \<times> jsval) option"
  | TypeError
  | NoSessionToken
  | RequestFailed nat jsval
  | NoValidToken

text \<open>
  The string that a template literal \<^verbatim>\<open>`${v}`\<close> puts in for \<open>v\<close>, or the
  \<^verbatim>\<open>TypeError\<close> it throws. A plain object is converted by the \<^verbatim>\<open>toString\<close> it
  inherits, which gives \<^verbatim>\<open>[object Object]\<close>; an own property of that name hides the
  inherited method and, never being a function in parsed JSON, leaves no way to convert
  the object. An array joins the strings of its elements with commas, with nothing for
  \<^verbatim>\<open>null\<close> and \<^verbatim>\<open>undefined\<close>, and throws what the first element that cannot be
  converted throws.
\<close>

fun join_elems :: "(error + string) list \<Rightarrow> error + string" where
  "join_elems [] = Inr []"
| "join_elems [x] = x"
| "join_elems (x # y # ys) =
     (case x of
        Inl e \<Rightarrow> Inl e
      | Inr s \<Rightarrow> (case join_elems (y # ys) of Inl e \<Rightarrow> Inl e | Inr t \<Rightarrow> Inr (s @ '','' @ t)))"

fun to_string :: "jsval \<Rightarrow> error + string" where
  "to_string JUndefined = Inr ''undefined''"
| "to_string JNull = Inr ''null''"
| "to_string (JBool b) = Inr (if b then ''true'' else ''false'')"
| "to_string (JNum n) = Inr n"
| "to_string (JStr s) = Inr s"
| "to_string (JArr xs) =
     join_elems (map (\<lambda>x. if x = JUndefined \<or> x = JNull then Inr [] else to_string x) xs)"
| "to_string (JObj kvs) =
     (if map_of kvs ''toString'' = None then Inr ''[object Object]'' else Inl TypeError)"

text \<open>\<^verbatim>\<open>error.response?.status\<close>\<close>

fun response_status :: "error \<Rightarrow> nat option" where
  "response_status (AxiosError (Some (s, d))) = Some s"
| "response_status e = None"

text \<open>
  Of the console output, the two lines that announce a login are kept:
  \<^verbatim>\<open>'No session token, authenticating...'\<close> and
  \<^verbatim>\<open>'Received 401, attempting to re-authenticate...'\<close>.
\<close>

datatype console = NoTokenAuthenticating | Received401

datatype event =
    Console console
  | Login request outcome
  | Call request outcome

record config =
  CAPROVER_URL :: string
  CAPROVER_PASSWORD :: string

record 'u world =
  sessionToken :: jsval
  upstream :: 'u
  trace :: "event list"

type_synonym 'u server = "'u \<Rightarrow> request \<Rightarrow> outcome \<times> 'u"

text \<open>Reading a trace: what was sent, and what an operation added to it.\<close>

fun is_login :: "event \<Rightarrow> bool" where
  "is_login (Login req out) = True"
| "is_login ev = False"

fun is_call :: "event \<Rightarrow> bool" where
  "is_call (Call req out) = True"
| "is_call ev = False"

fun no_response :: "event \<Rightarrow> bool" where
  "no_response (Login req NoResponse) = True"
| "no_response (Call req NoResponse) = True"
| "no_response ev = False"

definition logins :: "event list \<Rightarrow> nat" where
  "logins t = length (filter is_login t)"

definition calls :: "event list \<Rightarrow> nat" where
  "calls t = length (filter is_call t)"

definition reauths :: "event list \<Rightarrow> nat" where
  "reauths t = length (filter (\<lambda>ev. ev = Console Received401) t)"

text \<open>The logins that a trace has before its first call.\<close>

fun logins_before_call :: "event list \<Rightarrow> nat" where
  "logins_before_call [] = 0"
| "logins_before_call (Call req out # t) = 0"
| "logins_before_call (Login req out # t) = Suc (logins_before_call t)"
| "logins_before_call (ev # t) = logins_before_call t"

text \<open>
  A call carries a token when its headers are the two that \<^verbatim>\<open>getAuthHeaders\<close> builds
  from it: the content type, and \<^verbatim>\<open>Bearer\<close> with the string of the token.
\<close>

fun carries_bearer :: "jsval \<Rightarrow> event \<Rightarrow> bool" where
  "carries_bearer tok (Call req out) =
     (case to_string tok of
        Inl e \<Rightarrow> False
      | Inr s \<Rightarrow> req_headers req = [(''Content-Type'', ''application/json''),
                                   (''Authorization'', ''Bearer '' @ s)])"
| "carries_bearer tok ev = True"

definition new_events :: "'u world \<Rightarrow> 'u world \<Rightarrow> event list" where
  "new_events w w' = drop (length (trace w)) (trace w')"

text \<open>
  The credential that a trace leaves behind, when only the logins that were answered
  with a token write it and each of them puts its token in the place of the old one.
\<close>

fun credential_after :: "jsval \<Rightarrow> event list \<Rightarrow> jsval" where
  "credential_after tok [] = tok"
| "credential_after tok (Login req (Response s d) # t) =
     credential_after
       (if 200 \<le> s \<and> s < 300 \<and> truthy (property (property d ''data'') ''token'')
        then property (property d ''data'') ''token'' else tok) t"
| "credential_after tok (ev # t) = credential_after tok t"

text \<open>
  An upstream for examples: it answers the requests it gets with the outcomes of a list,
  one after the other, and is out of reach once the list is used up.
\<close>

definition scripted :: "outcome list server" where
  "scripted u req = (case u of [] \<Rightarrow> (NoResponse, []) | out # rest \<Rightarrow> (out, rest))"

definition token_response :: "string \<Rightarrow> outcome" where
  "token_response tok =
     Response 200 (JObj [(''status'', JNum ''100''), (''description'', JStr ''Login succeeded''),
                         (''data'', JObj [(''token'', JStr tok)])])"

definition captain :: config where
  "captain = \<lparr> CAPROVER_URL = ''https://captain.example.org'', CAPROVER_PASSWORD = ''secret'' \<rparr>"

text \<open>The status of an outcome, when it has one.\<close>

fun outcome_status :: "outcome \<Rightarrow> nat option" where
  "outcome_status (Response s d) = Some s"
| "outcome_status NoResponse = None"

text \<open>
  How axios settles: it resolves with the response when \<^verbatim>\<open>validateStatus\<close> accepts the
  status, rejects with the response attached when it does not, and rejects without a
  response when none came.
\<close>

fun axios_settle :: "(nat \<Rightarrow> bool) \<Rightarrow> outcome \<Rightarrow> error + nat \<times> jsval" where
  "axios_settle validateStatus (Response s d) =
     (if validateStatus s then Inr (s, d) else Inl (AxiosError (Some (s, d))))"
| "axios_settle validateStatus NoResponse = Inl (AxiosError None)"

text \<open>The \<^verbatim>\<open>validateStatus\<close> of axios when the caller gives none.\<close>

definition default_validateStatus :: "nat \<Rightarrow> bool" where
  "default_validateStatus status = (200 \<le> status \<and> status < 300)"

text \<open>
  One axios call in a world: the server answers the request from its state, the exchange
  goes on the trace (as a login or as a call), and the promise settles.
\<close>

definition axios ::
  "(nat \<Rightarrow> bool) \<Rightarrow> 'u server \<Rightarrow> (request \<Rightarrow> outcome \<Rightarrow> event) \<Rightarrow> request \<Rightarrow> 'u world
     \<Rightarrow> (error + nat \<times> jsval) \<times> 'u world" where
  "axios validateStatus srv tag req w =
     (case srv (upstream w) req of
        (out, u') \<Rightarrow>
          (axios_settle validateStatus out,
           w\<lparr>upstream := u', trace := trace w @ [tag req out]\<rparr>))"

subsection \<open>getAuthHeaders\<close>

text \<open>
  The throw for a missing token, then the object literal, whose template literal converts
  the token to a string and may throw in doing so.
\<close>

definition getAuthHeaders :: "jsval \<Rightarrow> error + (string \<times> string) list" where
  "getAuthHeaders tok =
     (if \<not> truthy tok then Inl NoSessionToken
      else case to_string tok of
             Inl e \<Rightarrow> Inl e
           | Inr s \<Rightarrow> Inr [(''Content-Type'', ''application/json''),
                            (''Authorization'', ''Bearer '' @ s)])"

subsection \<open>authenticate\<close>

definition login_request :: "config \<Rightarrow> request" where
  "login_request cfg =
     \<lparr> req_method = ''post'',
       req_url = CAPROVER_URL cfg @ ''/api/v2/login'',
       req_headers = [(''Content-Type'', ''application/json'')],
       req_data = JObj [(''password'', JStr (CAPROVER_PASSWORD cfg))] \<rparr>"

text \<open>
  The condition \<^verbatim>\<open>response.data && response.data.data && response.data.data.token\<close>
  reads a property only of a truthy value, where \<open>property\<close> is what JavaScript
  gives. The \<^verbatim>\<open>catch\<close> of \<^verbatim>\<open>authenticate\<close> prints and throws the same error
  again, so the error of the body is the error of the function.
\<close>

definition authenticate :: "config \<Rightarrow> 'u server \<Rightarrow> 'u world \<Rightarrow> (error + unit) \<times> 'u world" where
  "authenticate cfg srv w =
     (case axios default_validateStatus srv Login (login_request cfg) w of
        (Inl e, w1) \<Rightarrow> (Inl e, w1)
      | (Inr (s, d), w1) \<Rightarrow>
          if truthy d \<and> truthy (property d ''data'')
               \<and> truthy (property (property d ''data'') ''token'')
          then (Inr (), w1\<lparr>sessionToken := property (property d ''data'') ''token''\<rparr>)
          else (Inl NoValidToken, w1))"

subsection \<open>makeCaproverRequest\<close>

text \<open>The \<^verbatim>\<open>validateStatus\<close> that \<^verbatim>\<open>makeCaproverRequest\<close> gives to axios.\<close>

definition validateStatus :: "nat \<Rightarrow> bool" where
  "validateStatus status = (200 \<le> status \<and> status < 500)"

text \<open>The configuration object that \<^verbatim>\<open>makeCaproverRequest\<close> gives to axios.\<close>

definition call_request ::
  "config \<Rightarrow> string \<Rightarrow> string \<Rightarrow> (string \<times> string) list \<Rightarrow> jsval \<Rightarrow> request" where
  "call_request cfg endpoint method hs dat =
     \<lparr> req_method = method,
       req_url = CAPROVER_URL cfg @ endpoint,
       req_headers = hs,
       req_data = dat \<rparr>"

text \<open>The body of the \<^verbatim>\<open>try\<close>, up to its \<^verbatim>\<open>return\<close> or its first throw.\<close>

definition try_block ::
  "config \<Rightarrow> 'u server \<Rightarrow> string \<Rightarrow> string \<Rightarrow> jsval \<Rightarrow> 'u world \<Rightarrow> (error + jsval) \<times> 'u world" where
  "try_block cfg srv endpoint method dat w =
     (case (if \<not> truthy (sessionToken w) \<and> endpoint \<noteq> ''/api/v2/login''
            then authenticate cfg srv (w\<lparr>trace := trace w @ [Console NoTokenAuthenticating]\<rparr>)
            else (Inr (), w)) of
        (Inl e, w1) \<Rightarrow> (Inl e, w1)
      | (Inr _, w1) \<Rightarrow>
          (case getAuthHeaders (sessionToken w1) of
             Inl e \<Rightarrow> (Inl e, w1)
           | Inr hs \<Rightarrow>
               (case axios validateStatus srv Call (call_request cfg endpoint method hs dat) w1 of
                  (Inl e, w2) \<Rightarrow> (Inl e, w2)
                | (Inr (s, d), w2) \<Rightarrow>
                    if 400 \<le> s then (Inl (RequestFailed s d), w2) else (Inr d, w2))))"

text \<open>
  The whole function: the \<^verbatim>\<open>catch\<close> looks at \<^verbatim>\<open>error.response?.status\<close>, and on 401
  it logs in again (an error of that login leaves the function as it is) and calls the
  function itself; any other error is thrown again.
\<close>

function makeCaproverRequest ::
  "config \<Rightarrow> 'u server \<Rightarrow> string \<Rightarrow> string \<Rightarrow> jsval \<Rightarrow> 'u world \<Rightarrow> (error + jsval) \<times> 'u world" where
  "makeCaproverRequest cfg srv endpoint method dat w =
     (case try_block cfg srv endpoint method dat w of
        (Inr v, w1) \<Rightarrow> (Inr v, w1)
      | (Inl e, w1) \<Rightarrow>
          if response_status e = Some 401
          then (case authenticate cfg srv (w1\<lparr>trace := trace w1 @ [Console Received401]\<rparr>) of
                  (Inl e2, w2) \<Rightarrow> (Inl e2, w2)
                | (Inr _, w2) \<Rightarrow> makeCaproverRequest cfg srv endpoint method dat w2)
          else (Inl e, w1))"
  by pat_completeness auto

text \<open>
  The recursion ends. A 401 reaches the \<^verbatim>\<open>catch\<close> only from the login of the
  \<^verbatim>\<open>try\<close>, which runs only while no token is stored, and the recursive call is made
  only after a login that stored one.
\<close>

lemma axios_validateStatus_not_401:
  "axios validateStatus srv tag req w = (Inl e, w1) \<Longrightarrow> response_status e \<noteq> Some 401"
  by (auto simp: axios_def validateStatus_def split: prod.splits outcome.splits if_splits
      elim!: axios_settle.elims)

lemma join_elems_error: "join_elems xs = Inl e \<Longrightarrow> Inl e \<in> set xs"
  by (induction xs rule: join_elems.induct) (auto split: sum.splits)

lemma to_string_error: "to_string v = Inl e \<Longrightarrow> e = TypeError"
proof (induction v rule: to_string.induct)
  case (6 xs)
  from join_elems_error [OF "6.prems" [simplified]] "6.IH" show ?case
    by (auto split: if_splits)
qed (auto split: if_splits)

lemma getAuthHeaders_error:
  "getAuthHeaders tok = Inl e \<Longrightarrow> response_status e = None"
  by (auto simp: getAuthHeaders_def split: if_splits sum.splits dest: to_string_error)

lemma try_block_401:
  "try_block cfg srv endpoint method dat w = (Inl e, w1) \<Longrightarrow> response_status e = Some 401 \<Longrightarrow>
   \<not> truthy (sessionToken w) \<and> endpoint \<noteq> ''/api/v2/login''"
  by (auto simp: try_block_def dest: axios_validateStatus_not_401 getAuthHeaders_error
      split: if_splits prod.splits sum.splits)

lemma authenticate_Inr:
  "authenticate cfg srv w = (Inr u, w2) \<Longrightarrow> truthy (sessionToken w2)"
  by (auto simp: authenticate_def split: if_splits prod.splits sum.splits)

termination makeCaproverRequest
proof (relation "measure (\<lambda>(cfg, srv, endpoint, method, dat, w).
            if \<not> truthy (sessionToken w) \<and> endpoint \<noteq> ''/api/v2/login'' then 1 else 0)")
  show "wf (measure (\<lambda>(cfg :: config, srv :: 'a server, endpoint, method :: string, dat :: jsval, w).
            if \<not> truthy (sessionToken w) \<and> endpoint \<noteq> ''/api/v2/login'' then 1 else 0))"
    by simp
next
  fix cfg and srv :: "'a server" and endpoint m dat w x1 w1 e x2 w2 u
  assume t: "(x1, w1) = try_block cfg srv endpoint m dat w" "x1 = Inl e"
    and s: "response_status e = Some 401"
    and a: "(x2, w2) = authenticate cfg srv (w1\<lparr>trace := trace w1 @ [Console Received401]\<rparr>)"
       "x2 = Inr u"
  from t s have "\<not> truthy (sessionToken w) \<and> endpoint \<noteq> ''/api/v2/login''"
    using try_block_401 [of cfg srv endpoint m dat w e w1] by simp
  moreover from a have "truthy (sessionToken w2)"
    using authenticate_Inr [of cfg srv _ u w2] by simp
  ultimately show "((cfg, srv, endpoint, m, dat, w2), (cfg, srv, endpoint, m, dat, w))
      \<in> measure (\<lambda>(cfg, srv, endpoint, method, dat, w).
            if \<not> truthy (sessionToken w) \<and> endpoint \<noteq> ''/api/v2/login'' then 1 else 0)"
    by simp
qed

declare makeCaproverRequest.simps [simp del]

subsection \<open>What one invocation does\<close>

text \<open>
  With a token stored, or on the login endpoint, the \<^verbatim>\<open>catch\<close> never sees a 401: the
  function is its \<^verbatim>\<open>try\<close>. So the recursive call, made with a token stored, does not
  recurse again.
\<close>

lemma mcr_no_retry:
  "truthy (sessionToken w) \<or> endpoint = ''/api/v2/login'' \<Longrightarrow>
   makeCaproverRequest cfg srv endpoint method dat w = try_block cfg srv endpoint method dat w"
  using try_block_401 [of cfg srv endpoint "method" dat w]
  by (subst makeCaproverRequest.simps) (auto split: prod.splits sum.splits)

lemma mcr_unfold:
  "makeCaproverRequest cfg srv endpoint method dat w =
     (case try_block cfg srv endpoint method dat w of
        (Inr v, w1) \<Rightarrow> (Inr v, w1)
      | (Inl e, w1) \<Rightarrow>
          if response_status e = Some 401
          then (case authenticate cfg srv (w1\<lparr>trace := trace w1 @ [Console Received401]\<rparr>) of
                  (Inl e2, w2) \<Rightarrow> (Inl e2, w2)
                | (Inr _, w2) \<Rightarrow> try_block cfg srv endpoint method dat w2)
          else (Inl e, w1))"
  by (subst makeCaproverRequest.simps)
     (auto split: prod.splits sum.splits dest: authenticate_Inr simp: mcr_no_retry)

text \<open>
  A property of a falsy value is \<^verbatim>\<open>undefined\<close> in the model, so the three tests of
  \<^verbatim>\<open>authenticate\<close> come down to the last one.
\<close>

lemma truthy_property: "truthy (property v k) \<Longrightarrow> truthy v"
  by (cases v) auto

lemma token_condition:
  "(truthy d \<and> truthy (property d k) \<and> truthy (property (property d k) k'))
     = truthy (property (property d k) k')"
  using truthy_property [of "property d k" k'] truthy_property [of d k] by blast

text \<open>
  The effect of each function on the world: what it appends to the trace, what that does
  to the credential, how often it logs in and calls, and that an exchange without a
  response is the last thing it does.
\<close>

lemma axios_effect:
  "axios vs srv tag req w = (r, w') \<Longrightarrow>
   \<exists>out u'. srv (upstream w) req = (out, u') \<and> r = axios_settle vs out
      \<and> w' = w\<lparr>upstream := u', trace := trace w @ [tag req out]\<rparr>"
  by (auto simp: axios_def split: prod.splits)

lemma authenticate_effect:
  assumes "authenticate cfg srv w = (r, w')"
  shows "\<exists>out. trace w' = trace w @ [Login (login_request cfg) out]
      \<and> sessionToken w' = credential_after (sessionToken w) [Login (login_request cfg) out]
      \<and> (out = NoResponse \<longrightarrow> r = Inl (AxiosError None))"
proof -
  obtain r1 w1 where a: "axios default_validateStatus srv Login (login_request cfg) w = (r1, w1)"
    by (cases "axios default_validateStatus srv Login (login_request cfg) w")
  from axios_effect [OF a] obtain out u' where
    o: "r1 = axios_settle default_validateStatus out"
       "w1 = w\<lparr>upstream := u', trace := trace w @ [Login (login_request cfg) out]\<rparr>"
    by blast
  show ?thesis
  proof (cases out)
    case NoResponse
    with assms a o show ?thesis
      by (auto simp: authenticate_def)
  next
    case (Response s d)
    with assms a o show ?thesis
      by (auto simp: authenticate_def default_validateStatus_def token_condition
          split: if_splits)
  qed
qed


lemma credential_after_append:
  "credential_after tok (t @ t') = credential_after (credential_after tok t) t'"
  by (induction tok t rule: credential_after.induct) auto

lemma try_block_effect:
  assumes "try_block cfg srv endpoint method dat w = (r, w')"
  shows "\<exists>t. trace w' = trace w @ t
      \<and> sessionToken w' = credential_after (sessionToken w) t
      \<and> reauths t = 0
      \<and> logins t \<le> (if \<not> truthy (sessionToken w) \<and> endpoint \<noteq> ''/api/v2/login'' then 1 else 0)
      \<and> calls t \<le> 1
      \<and> list_all (\<lambda>ev. \<not> no_response ev) (butlast t)
      \<and> (t \<noteq> [] \<and> no_response (last t) \<longrightarrow> r = Inl (AxiosError None))"
proof -
  define pre where "pre = (if \<not> truthy (sessionToken w) \<and> endpoint \<noteq> ''/api/v2/login''
            then authenticate cfg srv (w\<lparr>trace := trace w @ [Console NoTokenAuthenticating]\<rparr>)
            else (Inr (), w))"
  obtain r0 w0 where p: "pre = (r0, w0)" by (cases pre)
  have pre_eff: "\<exists>t. trace w0 = trace w @ t
      \<and> sessionToken w0 = credential_after (sessionToken w) t
      \<and> reauths t = 0
      \<and> logins t \<le> (if \<not> truthy (sessionToken w) \<and> endpoint \<noteq> ''/api/v2/login'' then 1 else 0)
      \<and> calls t = 0
      \<and> list_all (\<lambda>ev. \<not> no_response ev) (butlast t)
      \<and> (t \<noteq> [] \<and> no_response (last t) \<longrightarrow> r0 = Inl (AxiosError None))"
  proof (cases "\<not> truthy (sessionToken w) \<and> endpoint \<noteq> ''/api/v2/login''")
    case False
    with p have "r0 = Inr ()" "w0 = w" by (auto simp: pre_def)
    then show ?thesis by (auto simp: reauths_def logins_def calls_def)
  next
    case True
    with p have "authenticate cfg srv (w\<lparr>trace := trace w @ [Console NoTokenAuthenticating]\<rparr>) = (r0, w0)"
      by (simp add: pre_def)
    from authenticate_effect [OF this] obtain out where
      "trace w0 = trace w @ [Console NoTokenAuthenticating, Login (login_request cfg) out]"
      "sessionToken w0 = credential_after (sessionToken w) [Login (login_request cfg) out]"
      "out = NoResponse \<longrightarrow> r0 = Inl (AxiosError None)"
      by auto
    then show ?thesis using True
      by (intro exI [of _ "[Console NoTokenAuthenticating, Login (login_request cfg) out]"])
         (cases out, auto simp: reauths_def logins_def calls_def)
  qed
  then obtain t0 where t0: "trace w0 = trace w @ t0"
      "sessionToken w0 = credential_after (sessionToken w) t0"
      "reauths t0 = 0"
      "logins t0 \<le> (if \<not> truthy (sessionToken w) \<and> endpoint \<noteq> ''/api/v2/login'' then 1 else 0)"
      "calls t0 = 0"
      "list_all (\<lambda>ev. \<not> no_response ev) (butlast t0)"
      "t0 \<noteq> [] \<and> no_response (last t0) \<longrightarrow> r0 = Inl (AxiosError None)"
    by blast
  show ?thesis
  proof (cases r0)
    case (Inl e)
    with assms p have "r = Inl e" "w' = w0"
      by (auto simp: try_block_def pre_def [symmetric])
    with t0 Inl show ?thesis by (intro exI [of _ t0]) auto
  next
    case (Inr u)
    with t0 have ok: "list_all (\<lambda>ev. \<not> no_response ev) t0"
      by (cases t0 rule: rev_cases) auto
    show ?thesis
    proof (cases "getAuthHeaders (sessionToken w0)")
      case (Inl e)
      with assms p Inr have "r = Inl e" "w' = w0"
        by (auto simp: try_block_def pre_def [symmetric])
      moreover from ok have "t0 \<noteq> [] \<Longrightarrow> \<not> no_response (last t0)"
        by (cases t0 rule: rev_cases) auto
      ultimately show ?thesis using t0 Inr by (intro exI [of _ t0]) auto
    next
      case hs: (Inr hs)
      obtain r1 w1 where a: "axios validateStatus srv Call (call_request cfg endpoint method hs dat) w0 = (r1, w1)"
        by (cases "axios validateStatus srv Call (call_request cfg endpoint method hs dat) w0")
      from axios_effect [OF a] obtain out u' where
        o: "r1 = axios_settle validateStatus out"
           "w1 = w0\<lparr>upstream := u', trace := trace w0 @ [Call (call_request cfg endpoint method hs dat) out]\<rparr>"
        by blast
      from assms p Inr hs a have rw: "w' = w1"
          "r = (case r1 of Inl e \<Rightarrow> Inl e | Inr (s, d) \<Rightarrow> if 400 \<le> s then Inl (RequestFailed s d) else Inr d)"
        by (auto simp: try_block_def pre_def [symmetric] split: sum.splits if_splits)
      show ?thesis using t0 ok o rw
        by (intro exI [of _ "t0 @ [Call (call_request cfg endpoint method hs dat) out]"])
           (cases out, auto simp: reauths_def logins_def calls_def credential_after_append)
    qed
  qed
qed


lemma mcr_effect:
  assumes "makeCaproverRequest cfg srv endpoint method dat w = (r, w')"
  shows "\<exists>t. trace w' = trace w @ t
      \<and> sessionToken w' = credential_after (sessionToken w) t
      \<and> reauths t \<le> 1 \<and> logins t \<le> 2 \<and> calls t \<le> 2
      \<and> list_all (\<lambda>ev. \<not> no_response ev) (butlast t)
      \<and> (t \<noteq> [] \<and> no_response (last t) \<longrightarrow> r = Inl (AxiosError None))"
proof -
  obtain r1 w1 where tb: "try_block cfg srv endpoint method dat w = (r1, w1)"
    by (cases "try_block cfg srv endpoint method dat w")
  from try_block_effect [OF tb] obtain t1 where t1':
      "trace w1 = trace w @ t1"
      "sessionToken w1 = credential_after (sessionToken w) t1"
      "reauths t1 = 0"
      "logins t1 \<le> (if \<not> truthy (sessionToken w) \<and> endpoint \<noteq> ''/api/v2/login'' then 1 else 0)"
      "calls t1 \<le> 1"
      "list_all (\<lambda>ev. \<not> no_response ev) (butlast t1)"
      "t1 \<noteq> [] \<and> no_response (last t1) \<longrightarrow> r1 = Inl (AxiosError None)"
    by blast
  from t1'(4) have "logins t1 \<le> 1"
    by (simp split: if_splits)
  note t1 = t1'(1-3) this t1'(5-7)
  show ?thesis
  proof (cases "\<exists>e. r1 = Inl e \<and> response_status e = Some 401")
    case False
    with assms tb have "r = r1" "w' = w1"
      by (auto simp: mcr_unfold split: sum.splits if_splits)
    with t1 show ?thesis by (intro exI [of _ t1]) auto
  next
    case True
    then obtain e where e: "r1 = Inl e" "response_status e = Some 401" by blast
    with t1 have all1: "list_all (\<lambda>ev. \<not> no_response ev) t1"
      by (cases t1 rule: rev_cases) auto
    obtain r2 w2 where au:
      "authenticate cfg srv (w1\<lparr>trace := trace w1 @ [Console Received401]\<rparr>) = (r2, w2)"
      by (cases "authenticate cfg srv (w1\<lparr>trace := trace w1 @ [Console Received401]\<rparr>)")
    from authenticate_effect [OF au] obtain out where out:
      "trace w2 = trace w @ t1 @ [Console Received401, Login (login_request cfg) out]"
      "sessionToken w2 = credential_after (sessionToken w1) [Login (login_request cfg) out]"
      "out = NoResponse \<longrightarrow> r2 = Inl (AxiosError None)"
      using t1 by auto
    let ?t2 = "t1 @ [Console Received401, Login (login_request cfg) out]"
    have cred2: "sessionToken w2 = credential_after (sessionToken w) ?t2"
      using out t1 by (simp add: credential_after_append)
    have cnt2: "reauths ?t2 = 1" "logins ?t2 \<le> 2" "calls ?t2 \<le> 1"
      using t1 by (auto simp: reauths_def logins_def calls_def)
    show ?thesis
    proof (cases r2)
      case (Inl e2)
      with assms tb e au have "r = Inl e2" "w' = w2"
        by (auto simp: mcr_unfold)
      with out cred2 cnt2 all1 Inl show ?thesis
        by (intro exI [of _ ?t2]) (cases out, auto simp: butlast_append)
    next
      case (Inr u)
      with out have resp: "\<not> no_response (Login (login_request cfg) out)"
        by (cases out) auto
      from Inr au have tok: "truthy (sessionToken w2)"
        by (auto dest: authenticate_Inr)
      from assms tb e au Inr have tb2: "try_block cfg srv endpoint method dat w2 = (r, w')"
        by (auto simp: mcr_unfold)
      from try_block_effect [OF tb2] obtain t3 where t3':
          "trace w' = trace w2 @ t3"
          "sessionToken w' = credential_after (sessionToken w2) t3"
          "reauths t3 = 0"
          "logins t3 \<le> (if \<not> truthy (sessionToken w2) \<and> endpoint \<noteq> ''/api/v2/login'' then 1 else 0)"
          "calls t3 \<le> 1"
          "list_all (\<lambda>ev. \<not> no_response ev) (butlast t3)"
          "t3 \<noteq> [] \<and> no_response (last t3) \<longrightarrow> r = Inl (AxiosError None)"
        by blast
      from t3'(4) tok have "logins t3 = 0"
        by simp
      note t3 = t3'(1-3) this t3'(5-7)
      have "reauths (?t2 @ t3) \<le> 1" "logins (?t2 @ t3) \<le> 2" "calls (?t2 @ t3) \<le> 2"
        using cnt2 t3 by (auto simp: reauths_def logins_def calls_def)
      moreover have "list_all (\<lambda>ev. \<not> no_response ev) (butlast (?t2 @ t3))"
        using all1 resp t3 by (cases "t3 = []") (auto simp: butlast_append)
      moreover have "?t2 @ t3 \<noteq> [] \<and> no_response (last (?t2 @ t3)) \<longrightarrow> r = Inl (AxiosError None)"
        using resp t3 by (cases "t3 = []") auto
      moreover have "sessionToken w' = credential_after (sessionToken w) (?t2 @ t3)"
        using t3 cred2 by (cases out) (simp_all add: credential_after_append)
      moreover have "trace w' = trace w @ ?t2 @ t3"
        using t3 out by simp
      ultimately show ?thesis
        by (intro exI [of _ "?t2 @ t3"]) simp
    qed
  qed
qed

lemma new_events_append: "trace w' = trace w @ t \<Longrightarrow> new_events w w' = t"
  by (simp add: new_events_def)

text \<open>
  The two equations that the claims are read from: what a login does with the answer it
  gets, and what a call does with its answer once a token is stored.
\<close>

lemma authenticate_eq:
  assumes "srv (upstream w) (login_request cfg) = (out, u1)"
  shows "authenticate cfg srv w =
    (case axios_settle default_validateStatus out of
       Inl e \<Rightarrow> (Inl e, w\<lparr>upstream := u1, trace := trace w @ [Login (login_request cfg) out]\<rparr>)
     | Inr (s, d) \<Rightarrow>
         if truthy (property (property d ''data'') ''token'')
         then (Inr (), w\<lparr>upstream := u1, trace := trace w @ [Login (login_request cfg) out],
                          sessionToken := property (property d ''data'') ''token''\<rparr>)
         else (Inl NoValidToken,
               w\<lparr>upstream := u1, trace := trace w @ [Login (login_request cfg) out]\<rparr>))"
  using assms by (simp add: authenticate_def axios_def token_condition split: sum.splits)

lemma getAuthHeaders_truthy: "getAuthHeaders tok = Inr hs \<Longrightarrow> truthy tok"
  by (auto simp: getAuthHeaders_def split: if_splits)

lemma try_block_call_eq:
  assumes "getAuthHeaders (sessionToken w) = Inr hs"
    and "srv (upstream w) (call_request cfg endpoint method hs dat) = (out, u1)"
  shows "try_block cfg srv endpoint method dat w =
    (case axios_settle validateStatus out of
       Inl e \<Rightarrow> (Inl e, w\<lparr>upstream := u1,
                  trace := trace w @ [Call (call_request cfg endpoint method hs dat) out]\<rparr>)
     | Inr (s, d) \<Rightarrow>
         if 400 \<le> s
         then (Inl (RequestFailed s d), w\<lparr>upstream := u1,
                  trace := trace w @ [Call (call_request cfg endpoint method hs dat) out]\<rparr>)
         else (Inr d, w\<lparr>upstream := u1,
                  trace := trace w @ [Call (call_request cfg endpoint method hs dat) out]\<rparr>))"
proof -
  from assms(1) have "truthy (sessionToken w)"
    by (auto simp: getAuthHeaders_def split: if_splits)
  with assms show ?thesis
    by (simp add: try_block_def axios_def split: sum.splits)
qed

lemma call_eq:
  assumes "getAuthHeaders (sessionToken w) = Inr hs"
    and "srv (upstream w) (call_request cfg endpoint method hs dat) = (out, u1)"
  shows "makeCaproverRequest cfg srv endpoint method dat w =
    (case axios_settle validateStatus out of
       Inl e \<Rightarrow> (Inl e, w\<lparr>upstream := u1,
                  trace := trace w @ [Call (call_request cfg endpoint method hs dat) out]\<rparr>)
     | Inr (s, d) \<Rightarrow>
         if 400 \<le> s
         then (Inl (RequestFailed s d), w\<lparr>upstream := u1,
                  trace := trace w @ [Call (call_request cfg endpoint method hs dat) out]\<rparr>)
         else (Inr d, w\<lparr>upstream := u1,
                  trace := trace w @ [Call (call_request cfg endpoint method hs dat) out]\<rparr>))"
  using assms getAuthHeaders_truthy [OF assms(1)]
  by (simp add: mcr_no_retry try_block_call_eq)

lemma credential_after_no_login: "logins t = 0 \<Longrightarrow> credential_after tok t = tok"
  by (induction tok t rule: credential_after.induct) (auto simp: logins_def)

text \<open>The definitions that run an example.\<close>

lemmas run_defs = mcr_unfold try_block_def authenticate_def axios_def scripted_def
  token_response_def getAuthHeaders_def default_validateStatus_def validateStatus_def
  call_request_def login_request_def captain_def new_events_def logins_def calls_def
  reauths_def

section \<open>The properties of the specification\<close>

subsection \<open>C1: a 401 on the call\<close>

text \<open>
  C1 says that a call whose first attempt is answered with 401 is followed by one login and
  one retry with the new token. In the source the 401 of a call never reaches the branch
  that does this: \<^verbatim>\<open>validateStatus\<close> accepts every status from 200 to 499, so axios
  resolves, and the error that the \<^verbatim>\<open>try\<close> then throws for a status of 400 or more is a
  plain \<^verbatim>\<open>Error\<close>, whose \<^verbatim>\<open>response\<close> is undefined. The scenario of the specification:
  no token stored, the login gives \<^verbatim>\<open>abc\<close>, the call is answered with 401, and the
  upstream would give \<^verbatim>\<open>xyz\<close> to a second login and 200 to a second call. The
  invocation ends in the error after one login and one call, the token is still
  \<^verbatim>\<open>abc\<close>, and the last two answers are never asked for.
\<close>

theorem retry_after_401_not_taken:
  "makeCaproverRequest captain scripted ''/api/v2/user/apps'' ''get'' JNull
     \<lparr> sessionToken = JNull,
       upstream = [token_response ''abc'', Response 401 JNull, token_response ''xyz'',
                   Response 200 (JStr ''ok'')],
       trace = [] \<rparr>
   = (Inl (RequestFailed 401 JNull),
      \<lparr> sessionToken = JStr ''abc'',
        upstream = [token_response ''xyz'', Response 200 (JStr ''ok'')],
        trace = [Console NoTokenAuthenticating,
                 Login (login_request captain) (token_response ''abc''),
                 Call (call_request captain ''/api/v2/user/apps'' ''get''
                   [(''Content-Type'', ''application/json''), (''Authorization'', ''Bearer abc'')]
                   JNull) (Response 401 JNull)] \<rparr>)"
  by (simp add: run_defs)

subsection \<open>C2: a 401 on every call\<close>

text \<open>
  C2 says that a call answered with 401 on both attempts ends in an error after exactly two
  calls and one refresh login. The second attempt is never made, for the reason given under
  C1: with the token \<^verbatim>\<open>abc\<close> stored and an upstream that answers every call with 401
  (and would give \<^verbatim>\<open>xyz\<close> to a login), the invocation ends in the error of the first
  call, after one call and no login, and the answers that a refresh and a retry would have
  got are never asked for.
\<close>

theorem permanent_401_single_attempt:
  "makeCaproverRequest captain scripted ''/api/v2/user/apps'' ''get'' JNull
     \<lparr> sessionToken = JStr ''abc'',
       upstream = [Response 401 JNull, token_response ''xyz'', Response 401 JNull],
       trace = [] \<rparr>
   = (Inl (RequestFailed 401 JNull),
      \<lparr> sessionToken = JStr ''abc'',
        upstream = [token_response ''xyz'', Response 401 JNull],
        trace = [Call (call_request captain ''/api/v2/user/apps'' ''get''
                   [(''Content-Type'', ''application/json''), (''Authorization'', ''Bearer abc'')]
                   JNull) (Response 401 JNull)] \<rparr>)"
  by (simp add: run_defs)

subsection \<open>C3: the login before the first call\<close>

text \<open>
  C3 as stated asks for exactly one login before the call, for every invocation without a
  stored token. When the first login is answered with 401, the \<^verbatim>\<open>catch\<close> logs in a
  second time, and the call goes out after two logins.
\<close>

theorem two_logins_counterexample:
  "logins_before_call (trace (snd (makeCaproverRequest captain scripted ''/api/v2/user/apps''
     ''get'' JNull
     \<lparr> sessionToken = JNull,
       upstream = [Response 401 JNull, token_response ''xyz'', Response 200 (JStr ''ok'')],
       trace = [] \<rparr>))) = 2
   \<and> calls (trace (snd (makeCaproverRequest captain scripted ''/api/v2/user/apps''
     ''get'' JNull
     \<lparr> sessionToken = JNull,
       upstream = [Response 401 JNull, token_response ''xyz'', Response 200 (JStr ''ok'')],
       trace = [] \<rparr>))) = 1"
  by (simp add: run_defs)

text \<open>What the \<^verbatim>\<open>try\<close> does once a token is stored, and how it gets there from a login.\<close>

lemma try_block_stored:
  assumes "truthy (sessionToken w)"
    and "try_block cfg srv endpoint method dat w = (r, w')"
  shows "sessionToken w' = sessionToken w"
    and "r = Inl e \<Longrightarrow> response_status e \<noteq> Some 401"
    and "trace w' = trace w @
          (case getAuthHeaders (sessionToken w) of
             Inl e \<Rightarrow> []
           | Inr hs \<Rightarrow> [Call (call_request cfg endpoint method hs dat)
                         (fst (srv (upstream w) (call_request cfg endpoint method hs dat)))])"
proof -
  show "r = Inl e \<Longrightarrow> response_status e \<noteq> Some 401"
    using assms try_block_401 [of cfg srv endpoint "method" dat w e w'] by auto
  show "sessionToken w' = sessionToken w"
    using assms
    by (auto simp: try_block_def axios_def split: sum.splits prod.splits if_splits)
  show "trace w' = trace w @
          (case getAuthHeaders (sessionToken w) of
             Inl e \<Rightarrow> []
           | Inr hs \<Rightarrow> [Call (call_request cfg endpoint method hs dat)
                         (fst (srv (upstream w) (call_request cfg endpoint method hs dat)))])"
    using assms
    by (auto simp: try_block_def axios_def split: sum.splits prod.splits if_splits)
qed

lemma try_block_login:
  assumes "\<not> truthy (sessionToken w)" and "endpoint \<noteq> ''/api/v2/login''"
    and "authenticate cfg srv (w\<lparr>trace := trace w @ [Console NoTokenAuthenticating]\<rparr>) = (ra, wa)"
  shows "try_block cfg srv endpoint method dat w =
     (case ra of Inl e \<Rightarrow> (Inl e, wa) | Inr u \<Rightarrow> try_block cfg srv endpoint method dat wa)"
  using assms authenticate_Inr [of cfg srv _ _ wa]
  by (auto simp: try_block_def split: sum.splits)

lemma carries_bearer_headers:
  "getAuthHeaders tok = Inr hs \<Longrightarrow>
   carries_bearer tok (Call (call_request cfg endpoint method hs dat) out)"
  by (auto simp: getAuthHeaders_def call_request_def split: if_splits sum.splits)

text \<open>
  C3, as amended. An invocation for another endpoint than the login, made while no token is
  stored, logs in before it sends anything else, so a login comes before every call; and
  every call that it sends has the headers \<^verbatim>\<open>Content-Type: application/json\<close> and
  \<^verbatim>\<open>Authorization: Bearer\<close> with the string of the token that is stored when the
  invocation ends. Unless the first login is answered with status 401, it is the only login
  of the invocation, and the call is sent after it exactly when it stored a token that
  \<^verbatim>\<open>getAuthHeaders\<close> can turn into headers.
\<close>

theorem login_before_call:
  assumes "\<not> truthy (sessionToken w)" and "endpoint \<noteq> ''/api/v2/login''"
    and "srv (upstream w) (login_request cfg) = (out, u1)"
    and "makeCaproverRequest cfg srv endpoint method dat w = (r, w')"
  shows "take 2 (new_events w w') = [Console NoTokenAuthenticating, Login (login_request cfg) out]
     \<and> 1 \<le> logins_before_call (new_events w w')
     \<and> list_all (carries_bearer (sessionToken w')) (new_events w w')
     \<and> (outcome_status out \<noteq> Some 401 \<longrightarrow>
          logins (new_events w w') = 1
        \<and> new_events w w' =
            Console NoTokenAuthenticating # Login (login_request cfg) out #
            (case getAuthHeaders (sessionToken w') of
               Inl e \<Rightarrow> []
             | Inr hs \<Rightarrow> [Call (call_request cfg endpoint method hs dat)
                           (fst (srv u1 (call_request cfg endpoint method hs dat)))]))"
proof -
  let ?w0 = "w\<lparr>trace := trace w @ [Console NoTokenAuthenticating]\<rparr>"
  let ?pre = "[Console NoTokenAuthenticating, Login (login_request cfg) out]"
  from assms(3) have srv0: "srv (upstream ?w0) (login_request cfg) = (out, u1)"
    by simp
  obtain ra wa where a: "authenticate cfg srv ?w0 = (ra, wa)"
    by (cases "authenticate cfg srv ?w0")
  from a authenticate_eq [where srv = srv, OF srv0]
  have wa: "trace wa = trace w @ ?pre" "upstream wa = u1"
    by (auto split: sum.splits if_splits)
  from a authenticate_eq [where srv = srv, OF srv0] assms(1)
  have fail: "\<And>e. ra = Inl e \<Longrightarrow> \<not> truthy (sessionToken wa)"
    and st: "\<And>e. ra = Inl e \<Longrightarrow> response_status e = Some 401 \<Longrightarrow> outcome_status out = Some 401"
    by (cases out; auto split: sum.splits if_splits)+
  note tb = try_block_login [of w endpoint cfg srv ra wa "method" dat, OF assms(1,2) a]
  show ?thesis
  proof (cases ra)
    case (Inr u)
    with a have tok: "truthy (sessionToken wa)"
      by (auto dest: authenticate_Inr)
    obtain r1 w1 where t1: "try_block cfg srv endpoint method dat wa = (r1, w1)"
      by (cases "try_block cfg srv endpoint method dat wa")
    note s1 = try_block_stored [OF tok t1]
    from tb Inr t1 have "try_block cfg srv endpoint method dat w = (r1, w1)"
      by simp
    with s1(2) assms(4) have "w' = w1"
      by (auto simp: mcr_unfold split: sum.splits)
    with s1(1,3) wa show ?thesis
      by (auto simp: new_events_def logins_def carries_bearer_headers
          simp del: carries_bearer.simps(1) split: sum.splits)
  next
    case (Inl e)
    with tb have t0: "try_block cfg srv endpoint method dat w = (Inl e, wa)"
      by simp
    show ?thesis
    proof (cases "response_status e = Some 401")
      case False
      with t0 assms(4) have "w' = wa"
        by (auto simp: mcr_unfold)
      with wa fail [OF Inl] show ?thesis
        by (simp add: new_events_def logins_def getAuthHeaders_def)
    next
      case True
      obtain r2 w2 where a2:
        "authenticate cfg srv (wa\<lparr>trace := trace wa @ [Console Received401]\<rparr>) = (r2, w2)"
        by (cases "authenticate cfg srv (wa\<lparr>trace := trace wa @ [Console Received401]\<rparr>)")
      from authenticate_effect [OF a2] wa obtain out2 where w2:
        "trace w2 = trace w @ ?pre @ [Console Received401, Login (login_request cfg) out2]"
        by auto
      show ?thesis
      proof (cases r2)
        case e2: (Inl e2)
        with t0 True a2 assms(4) have "w' = w2"
          by (auto simp: mcr_unfold)
        with w2 st [OF Inl True] show ?thesis
          by (simp add: new_events_def)
      next
        case (Inr u)
        with a2 have tok: "truthy (sessionToken w2)"
          by (auto dest: authenticate_Inr)
        from t0 True a2 Inr assms(4)
        have t2: "try_block cfg srv endpoint method dat w2 = (r, w')"
          by (auto simp: mcr_unfold)
        note s2 = try_block_stored [OF tok t2]
        from s2(1,3) w2 st [OF Inl True] show ?thesis
          by (auto simp: new_events_def carries_bearer_headers
              simp del: carries_bearer.simps(1) split: sum.splits)
      qed
    qed
  qed
qed

text \<open>
  Two examples. The login gives \<^verbatim>\<open>abc\<close>, and the call carries \<^verbatim>\<open>Bearer abc\<close>. The
  login gives an object with a property \<^verbatim>\<open>toString\<close> as its token: it is stored, no
  header can be built from it, and no call is sent.
\<close>

theorem login_before_call_witness:
  "\<not> truthy JNull \<and> outcome_status (token_response ''abc'') \<noteq> Some 401
   \<and> new_events
        \<lparr> sessionToken = JNull,
          upstream = [token_response ''abc'', Response 200 (JStr ''ok'')], trace = [] \<rparr>
        (snd (makeCaproverRequest captain scripted ''/api/v2/user/apps'' ''get'' JNull
          \<lparr> sessionToken = JNull,
            upstream = [token_response ''abc'', Response 200 (JStr ''ok'')], trace = [] \<rparr>))
      = [Console NoTokenAuthenticating,
         Login (login_request captain) (token_response ''abc''),
         Call (call_request captain ''/api/v2/user/apps'' ''get''
                 [(''Content-Type'', ''application/json''), (''Authorization'', ''Bearer abc'')]
                 JNull) (Response 200 (JStr ''ok''))]
   \<and> new_events
        \<lparr> sessionToken = JNull,
          upstream = [Response 200 (JObj [(''data'',
                        JObj [(''token'', JObj [(''toString'', JStr ''x'')])])]),
                      Response 200 (JStr ''ok'')], trace = [] \<rparr>
        (snd (makeCaproverRequest captain scripted ''/api/v2/user/apps'' ''get'' JNull
          \<lparr> sessionToken = JNull,
            upstream = [Response 200 (JObj [(''data'',
                          JObj [(''token'', JObj [(''toString'', JStr ''x'')])])]),
                        Response 200 (JStr ''ok'')], trace = [] \<rparr>))
      = [Console NoTokenAuthenticating,
         Login (login_request captain)
           (Response 200 (JObj [(''data'',
              JObj [(''token'', JObj [(''toString'', JStr ''x'')])])]))]"
  using login_before_call [of
      "\<lparr> sessionToken = JNull,
          upstream = [token_response ''abc'', Response 200 (JStr ''ok'')], trace = [] \<rparr>"
      "''/api/v2/user/apps''" scripted captain "token_response ''abc''"
      "[Response 200 (JStr ''ok'')]" "''get''" JNull
      "fst (makeCaproverRequest captain scripted ''/api/v2/user/apps'' ''get'' JNull
          \<lparr> sessionToken = JNull,
            upstream = [token_response ''abc'', Response 200 (JStr ''ok'')], trace = [] \<rparr>)"
      "snd (makeCaproverRequest captain scripted ''/api/v2/user/apps'' ''get'' JNull
          \<lparr> sessionToken = JNull,
            upstream = [token_response ''abc'', Response 200 (JStr ''ok'')], trace = [] \<rparr>)"]
    login_before_call [of
      "\<lparr> sessionToken = JNull,
          upstream = [Response 200 (JObj [(''data'',
                        JObj [(''token'', JObj [(''toString'', JStr ''x'')])])]),
                      Response 200 (JStr ''ok'')], trace = [] \<rparr>"
      "''/api/v2/user/apps''" scripted captain
      "Response 200 (JObj [(''data'', JObj [(''token'', JObj [(''toString'', JStr ''x'')])])])"
      "[Response 200 (JStr ''ok'')]" "''get''" JNull
      "fst (makeCaproverRequest captain scripted ''/api/v2/user/apps'' ''get'' JNull
          \<lparr> sessionToken = JNull,
            upstream = [Response 200 (JObj [(''data'',
                          JObj [(''token'', JObj [(''toString'', JStr ''x'')])])]),
                        Response 200 (JStr ''ok'')], trace = [] \<rparr>)"
      "snd (makeCaproverRequest captain scripted ''/api/v2/user/apps'' ''get'' JNull
          \<lparr> sessionToken = JNull,
            upstream = [Response 200 (JObj [(''data'',
                          JObj [(''token'', JObj [(''toString'', JStr ''x'')])])]),
                        Response 200 (JStr ''ok'')], trace = [] \<rparr>)"]
  by (simp add: run_defs)

subsection \<open>C4: what the login stores\<close>

text \<open>
  C4. When the login endpoint answers with a status from 200 to 299, \<^verbatim>\<open>authenticate\<close>
  stores \<^verbatim>\<open>response.data.data.token\<close> as the session token if it is truthy; if there is
  no such property it throws \<^verbatim>\<open>'No valid token received from authentication'\<close> and
  the session token is what it was.
\<close>

theorem authenticate_stores_token:
  assumes "srv (upstream w) (login_request cfg) = (Response s d, u1)"
    and "200 \<le> s" and "s < 300"
  shows "(truthy (property (property d ''data'') ''token'') \<longrightarrow>
            authenticate cfg srv w =
              (Inr (), w\<lparr>upstream := u1,
                          trace := trace w @ [Login (login_request cfg) (Response s d)],
                          sessionToken := property (property d ''data'') ''token''\<rparr>))
       \<and> (property (property d ''data'') ''token'' = JUndefined \<longrightarrow>
            authenticate cfg srv w =
              (Inl NoValidToken,
               w\<lparr>upstream := u1,
                   trace := trace w @ [Login (login_request cfg) (Response s d)]\<rparr>)
            \<and> sessionToken (snd (authenticate cfg srv w)) = sessionToken w)"
  using assms by (simp add: authenticate_eq default_validateStatus_def)

text \<open>
  Two examples: a login answered with the token \<^verbatim>\<open>abc\<close>, and one answered with
  \<^verbatim>\<open>{"data": {}}\<close> while \<^verbatim>\<open>old\<close> is stored.
\<close>

theorem authenticate_stores_token_witness:
  "authenticate captain scripted
      \<lparr> sessionToken = JNull, upstream = [token_response ''abc''], trace = [] \<rparr>
    = (Inr (), \<lparr> sessionToken = JStr ''abc'', upstream = [],
                   trace = [Login (login_request captain) (token_response ''abc'')] \<rparr>)
   \<and> authenticate captain scripted
      \<lparr> sessionToken = JStr ''old'', upstream = [Response 200 (JObj [(''data'', JObj [])])],
        trace = [] \<rparr>
    = (Inl NoValidToken,
       \<lparr> sessionToken = JStr ''old'', upstream = [],
         trace = [Login (login_request captain) (Response 200 (JObj [(''data'', JObj [])]))] \<rparr>)"
  using authenticate_stores_token [of scripted
      "\<lparr> sessionToken = JNull, upstream = [token_response ''abc''], trace = [] \<rparr>"
      captain 200
      "JObj [(''status'', JNum ''100''), (''description'', JStr ''Login succeeded''),
             (''data'', JObj [(''token'', JStr ''abc'')])]" "[]"]
    authenticate_stores_token [of scripted
      "\<lparr> sessionToken = JStr ''old'', upstream = [Response 200 (JObj [(''data'', JObj [])])],
         trace = [] \<rparr>"
      captain 200 "JObj [(''data'', JObj [])]" "[]"]
  by (simp add: scripted_def token_response_def)

subsection \<open>C5: the classes of status\<close>

text \<open>
  C5 as stated makes every status from 300 to 499 other than 401 a client error. The source
  throws only from 400 on: a response with status 300 is returned as a success.
\<close>

theorem redirect_counterexample:
  "fst (makeCaproverRequest captain scripted ''/api/v2/user/apps'' ''get'' JNull
     \<lparr> sessionToken = JStr ''abc'', upstream = [Response 300 (JStr ''choose'')], trace = [] \<rparr>)
   = Inr (JStr ''choose'')"
  by (simp add: run_defs)

text \<open>
  C5, as amended. With a token stored, a response to the call with a status from 200 to 399
  is a success that returns the body; one with a status from 400 to 499 other than 401 is
  an error that carries the status and the body; and axios resolves rather than rejects
  for every status from 200 to 499.
\<close>

theorem status_classes:
  assumes "getAuthHeaders (sessionToken w) = Inr hs"
    and "srv (upstream w) (call_request cfg endpoint method hs dat) = (Response s d, u1)"
  shows "(200 \<le> s \<and> s < 400 \<longrightarrow>
            fst (makeCaproverRequest cfg srv endpoint method dat w) = Inr d)
       \<and> (400 \<le> s \<and> s < 500 \<and> s \<noteq> 401 \<longrightarrow>
            fst (makeCaproverRequest cfg srv endpoint method dat w) = Inl (RequestFailed s d))
       \<and> (200 \<le> s \<and> s < 500 \<longrightarrow>
            fst (axios validateStatus srv Call (call_request cfg endpoint method hs dat) w)
              = Inr (s, d))"
  using assms(2) call_eq [where srv = srv, OF assms]
  by (auto simp: validateStatus_def axios_def)

text \<open>Examples: a 200 and a 404.\<close>

theorem status_classes_witness:
  "fst (makeCaproverRequest captain scripted ''/api/v2/user/apps'' ''get'' JNull
      \<lparr> sessionToken = JStr ''abc'', upstream = [Response 200 (JStr ''ok'')], trace = [] \<rparr>)
     = Inr (JStr ''ok'')
   \<and> fst (makeCaproverRequest captain scripted ''/api/v2/user/apps/nope'' ''get'' JNull
      \<lparr> sessionToken = JStr ''abc'', upstream = [Response 404 (JStr ''no such app'')],
        trace = [] \<rparr>)
     = Inl (RequestFailed 404 (JStr ''no such app''))
   \<and> fst (axios validateStatus scripted Call
      (call_request captain ''/api/v2/user/apps/nope'' ''get''
         [(''Content-Type'', ''application/json''), (''Authorization'', ''Bearer abc'')] JNull)
      \<lparr> sessionToken = JStr ''abc'', upstream = [Response 404 (JStr ''no such app'')],
        trace = [] \<rparr>)
     = Inr (404, JStr ''no such app'')"
  using status_classes [of
      "\<lparr> sessionToken = JStr ''abc'', upstream = [Response 200 (JStr ''ok'')],
         trace = [] \<rparr>"
      "[(''Content-Type'', ''application/json''), (''Authorization'', ''Bearer abc'')]"
      scripted captain "''/api/v2/user/apps''" "''get''" JNull 200 "JStr ''ok''" "[]"]
    status_classes [of
      "\<lparr> sessionToken = JStr ''abc'', upstream = [Response 404 (JStr ''no such app'')],
         trace = [] \<rparr>"
      "[(''Content-Type'', ''application/json''), (''Authorization'', ''Bearer abc'')]"
      scripted captain "''/api/v2/user/apps/nope''" "''get''" JNull 404
      "JStr ''no such app''" "[]"]
  by (simp add: getAuthHeaders_def scripted_def)

subsection \<open>C6: transport errors\<close>

text \<open>
  C6. When an exchange with the upstream gets no response (connection failure, timeout,
  name resolution), it is the last thing the invocation does, and the caller gets that
  error: nothing is sent after it, so no login follows a transport error.
\<close>

theorem transport_error_surfaced:
  assumes "makeCaproverRequest cfg srv endpoint method dat w = (r, w')"
    and "new_events w w' = before @ ev # after"
    and "no_response ev"
  shows "after = [] \<and> r = Inl (AxiosError None)"
proof -
  from mcr_effect [OF assms(1)] obtain t where t:
      "trace w' = trace w @ t"
      "list_all (\<lambda>ev. \<not> no_response ev) (butlast t)"
      "t \<noteq> [] \<and> no_response (last t) \<longrightarrow> r = Inl (AxiosError None)"
    by blast
  with assms(2) have eq: "t = before @ ev # after"
    by (simp add: new_events_append)
  have "after = []"
  proof (rule ccontr)
    assume "after \<noteq> []"
    then have "butlast t = before @ ev # butlast after"
      by (simp add: eq butlast_append)
    with t(2) assms(3) show False by simp
  qed
  with t(3) eq assms(3) show ?thesis by simp
qed

text \<open>
  An example: the login succeeds and the host is out of reach for the call. The invocation
  has made its one login, and the error of the call is what it returns.
\<close>

theorem transport_error_surfaced_witness:
  "no_response (Call (call_request captain ''/api/v2/user/apps'' ''get''
                 [(''Content-Type'', ''application/json''), (''Authorization'', ''Bearer abc'')]
                 JNull) NoResponse)
   \<and> new_events
        \<lparr> sessionToken = JNull, upstream = [token_response ''abc''], trace = [] \<rparr>
        (snd (makeCaproverRequest captain scripted ''/api/v2/user/apps'' ''get'' JNull
          \<lparr> sessionToken = JNull, upstream = [token_response ''abc''], trace = [] \<rparr>))
      = [Console NoTokenAuthenticating,
         Login (login_request captain) (token_response ''abc''),
         Call (call_request captain ''/api/v2/user/apps'' ''get''
                 [(''Content-Type'', ''application/json''), (''Authorization'', ''Bearer abc'')]
                 JNull) NoResponse]
   \<and> fst (makeCaproverRequest captain scripted ''/api/v2/user/apps'' ''get'' JNull
          \<lparr> sessionToken = JNull, upstream = [token_response ''abc''], trace = [] \<rparr>)
      = Inl (AxiosError None)"
  using transport_error_surfaced [of captain scripted "''/api/v2/user/apps''" "''get''" JNull
      "\<lparr> sessionToken = JNull, upstream = [token_response ''abc''], trace = [] \<rparr>"
      "fst (makeCaproverRequest captain scripted ''/api/v2/user/apps'' ''get'' JNull
          \<lparr> sessionToken = JNull, upstream = [token_response ''abc''], trace = [] \<rparr>)"
      "snd (makeCaproverRequest captain scripted ''/api/v2/user/apps'' ''get'' JNull
          \<lparr> sessionToken = JNull, upstream = [token_response ''abc''], trace = [] \<rparr>)"
      "[Console NoTokenAuthenticating,
         Login (login_request captain) (token_response ''abc'')]"
      "Call (call_request captain ''/api/v2/user/apps'' ''get''
                 [(''Content-Type'', ''application/json''), (''Authorization'', ''Bearer abc'')]
                 JNull) NoResponse"
      "[]"]
  by (simp add: run_defs)

subsection \<open>C7: errors of the operation itself\<close>

text \<open>
  C7. With a token stored, a response to the call with a status of 400 or more other than
  401 (404 and 500 among them) reaches the caller as an error with that status and body:
  the thrown \<^verbatim>\<open>'Request failed with status ...'\<close> below 500, the rejection of axios
  with its response from 500 on. The call is all that was sent, and the session token is
  what it was.
\<close>

theorem error_passthrough:
  assumes "getAuthHeaders (sessionToken w) = Inr hs"
    and "srv (upstream w) (call_request cfg endpoint method hs dat) = (Response s d, u1)"
    and "400 \<le> s" and "s \<noteq> 401"
    and "makeCaproverRequest cfg srv endpoint method dat w = (r, w')"
  shows "r = (if s < 500 then Inl (RequestFailed s d) else Inl (AxiosError (Some (s, d))))
       \<and> sessionToken w' = sessionToken w
       \<and> new_events w w' = [Call (call_request cfg endpoint method hs dat) (Response s d)]"
  using assms(3-5) call_eq [where srv = srv, OF assms(1,2)]
  by (auto simp: validateStatus_def new_events_def)

text \<open>Examples: a 404 and a 500, with \<^verbatim>\<open>abc\<close> stored before and after.\<close>

theorem error_passthrough_witness:
  "fst (makeCaproverRequest captain scripted ''/api/v2/user/apps/nope'' ''get'' JNull
      \<lparr> sessionToken = JStr ''abc'', upstream = [Response 404 (JStr ''no such app'')],
        trace = [] \<rparr>) = Inl (RequestFailed 404 (JStr ''no such app''))
   \<and> sessionToken (snd (makeCaproverRequest captain scripted ''/api/v2/user/apps/nope'' ''get''
      JNull
      \<lparr> sessionToken = JStr ''abc'', upstream = [Response 404 (JStr ''no such app'')],
        trace = [] \<rparr>)) = JStr ''abc''
   \<and> fst (makeCaproverRequest captain scripted ''/api/v2/user/apps'' ''get'' JNull
      \<lparr> sessionToken = JStr ''abc'', upstream = [Response 500 (JStr ''broken'')],
        trace = [] \<rparr>) = Inl (AxiosError (Some (500, JStr ''broken'')))
   \<and> sessionToken (snd (makeCaproverRequest captain scripted ''/api/v2/user/apps'' ''get''
      JNull
      \<lparr> sessionToken = JStr ''abc'', upstream = [Response 500 (JStr ''broken'')],
        trace = [] \<rparr>)) = JStr ''abc''"
  using error_passthrough [of
      "\<lparr> sessionToken = JStr ''abc'', upstream = [Response 404 (JStr ''no such app'')],
         trace = [] \<rparr>"
      "[(''Content-Type'', ''application/json''), (''Authorization'', ''Bearer abc'')]"
      scripted captain "''/api/v2/user/apps/nope''" "''get''" JNull 404 "JStr ''no such app''" "[]"
      "fst (makeCaproverRequest captain scripted ''/api/v2/user/apps/nope'' ''get'' JNull
        \<lparr> sessionToken = JStr ''abc'', upstream = [Response 404 (JStr ''no such app'')],
          trace = [] \<rparr>)"
      "snd (makeCaproverRequest captain scripted ''/api/v2/user/apps/nope'' ''get'' JNull
        \<lparr> sessionToken = JStr ''abc'', upstream = [Response 404 (JStr ''no such app'')],
          trace = [] \<rparr>)"]
    error_passthrough [of
      "\<lparr> sessionToken = JStr ''abc'', upstream = [Response 500 (JStr ''broken'')],
         trace = [] \<rparr>"
      "[(''Content-Type'', ''application/json''), (''Authorization'', ''Bearer abc'')]"
      scripted captain "''/api/v2/user/apps''" "''get''" JNull 500 "JStr ''broken''" "[]"
      "fst (makeCaproverRequest captain scripted ''/api/v2/user/apps'' ''get'' JNull
        \<lparr> sessionToken = JStr ''abc'', upstream = [Response 500 (JStr ''broken'')],
          trace = [] \<rparr>)"
      "snd (makeCaproverRequest captain scripted ''/api/v2/user/apps'' ''get'' JNull
        \<lparr> sessionToken = JStr ''abc'', upstream = [Response 500 (JStr ''broken'')],
          trace = [] \<rparr>)"]
  by (simp add: getAuthHeaders_def scripted_def)

subsection \<open>C8: who writes the credential\<close>

text \<open>
  C8. The world has one session token. After \<^verbatim>\<open>makeCaproverRequest\<close> and after
  \<^verbatim>\<open>authenticate\<close> it is what the logins of the operation made of it: each login that
  was answered with a token put that token in its place, and nothing else changed it. An
  invocation that made no login leaves it as it was. (\<^verbatim>\<open>getAuthHeaders\<close> only reads
  it: the model gives it the token and gets headers or an error back.)
\<close>

theorem only_login_writes:
  "sessionToken (snd (makeCaproverRequest cfg srv endpoint method dat w))
     = credential_after (sessionToken w)
         (new_events w (snd (makeCaproverRequest cfg srv endpoint method dat w)))
   \<and> sessionToken (snd (authenticate cfg srv w))
     = credential_after (sessionToken w) (new_events w (snd (authenticate cfg srv w)))
   \<and> (logins (new_events w (snd (makeCaproverRequest cfg srv endpoint method dat w))) = 0 \<longrightarrow>
        sessionToken (snd (makeCaproverRequest cfg srv endpoint method dat w)) = sessionToken w)"
proof -
  obtain r w' where m: "makeCaproverRequest cfg srv endpoint method dat w = (r, w')"
    by (cases "makeCaproverRequest cfg srv endpoint method dat w")
  from mcr_effect [OF m] obtain t where t: "trace w' = trace w @ t"
      "sessionToken w' = credential_after (sessionToken w) t"
    by blast
  obtain r2 w2 where a: "authenticate cfg srv w = (r2, w2)"
    by (cases "authenticate cfg srv w")
  from authenticate_effect [OF a] obtain out where out:
      "trace w2 = trace w @ [Login (login_request cfg) out]"
      "sessionToken w2 = credential_after (sessionToken w) [Login (login_request cfg) out]"
    by blast
  from t have "new_events w w' = t" by (simp add: new_events_append)
  moreover from out have "new_events w w2 = [Login (login_request cfg) out]"
    by (simp add: new_events_append)
  ultimately show ?thesis using t out m a
    by (simp add: credential_after_no_login)
qed

text \<open>An example without a login: a 404 on the call, with \<^verbatim>\<open>abc\<close> stored.\<close>

theorem only_login_writes_witness:
  "sessionToken (snd (makeCaproverRequest captain scripted ''/api/v2/user/apps/nope'' ''get''
      JNull
      \<lparr> sessionToken = JStr ''abc'', upstream = [Response 404 (JStr ''no such app'')],
        trace = [] \<rparr>)) = JStr ''abc''
   \<and> logins (new_events
      \<lparr> sessionToken = JStr ''abc'', upstream = [Response 404 (JStr ''no such app'')],
        trace = [] \<rparr>
      (snd (makeCaproverRequest captain scripted ''/api/v2/user/apps/nope'' ''get''
      JNull
      \<lparr> sessionToken = JStr ''abc'', upstream = [Response 404 (JStr ''no such app'')],
        trace = [] \<rparr>))) = 0"
  using only_login_writes [of captain scripted "''/api/v2/user/apps/nope''" "''get''" JNull
      "\<lparr> sessionToken = JStr ''abc'', upstream = [Response 404 (JStr ''no such app'')],
         trace = [] \<rparr>"]
  by (simp add: run_defs)

subsection \<open>C10: the login endpoint without a token\<close>

text \<open>
  C10. For the endpoint \<^verbatim>\<open>/api/v2/login\<close> and no token stored, the invocation throws
  \<^verbatim>\<open>'No session token available. Please authenticate first.'\<close> and the world is
  untouched: nothing was sent.
\<close>

theorem login_endpoint_without_token:
  assumes "\<not> truthy (sessionToken w)"
  shows "makeCaproverRequest cfg srv ''/api/v2/login'' method dat w = (Inl NoSessionToken, w)"
  using assms by (simp add: mcr_no_retry try_block_def getAuthHeaders_def)

text \<open>An example: a login request passed to \<^verbatim>\<open>makeCaproverRequest\<close> on a fresh process.\<close>

theorem login_endpoint_without_token_witness:
  "\<not> truthy JNull \<and>
   makeCaproverRequest captain scripted ''/api/v2/login'' ''post''
     (JObj [(''password'', JStr ''secret'')])
     \<lparr> sessionToken = JNull, upstream = [token_response ''abc''], trace = [] \<rparr>
   = (Inl NoSessionToken,
      \<lparr> sessionToken = JNull, upstream = [token_response ''abc''], trace = [] \<rparr>)"
  using login_endpoint_without_token [of
     "\<lparr> sessionToken = JNull, upstream = [token_response ''abc''], trace = [] \<rparr>"
     captain scripted "''post''" "JObj [(''password'', JStr ''secret'')]"]
  by simp

end
